theory Spec2Isabelle
  imports Complex_Main
begin

section \<open>Python values, exceptions and list operations\<close>

text \<open>
  The repository is Python. Numbers (prices, volumes, percentages) are modelled as exact
  rationals: binary floating point is idealised, so a statement about a rounded value is a
  statement about the exactly rounded rational. Every raise of the source is a value
  \<open>Inl e\<close> of the result type \<open>pyexn + 'a\<close>.
\<close>

datatype pyexn =
    TypeError string
  | IndexError string
  | ValueError string
  | AttributeError string
  | ValidationError string
  | UpstreamError string
  | AgentException string

text \<open>
  \<open>str(e)\<close>. \<open>AgentException\<close> (app/core/exceptions.py) is an HTTP exception with
  status 500 whose detail is \<open>Agent error: ...\<close>; the web framework renders it as
  status, colon, detail.
\<close>

fun str_exn :: "pyexn \<Rightarrow> string" where
  "str_exn (TypeError m) = m"
| "str_exn (IndexError m) = m"
| "str_exn (ValueError m) = m"
| "str_exn (AttributeError m) = m"
| "str_exn (ValidationError m) = m"
| "str_exn (UpstreamError m) = m"
| "str_exn (AgentException d) = ''500: '' @ d"

text \<open>The constructor of \<open>AgentException\<close>: \<open>detail=f"Agent error: {detail}"\<close>.\<close>

definition mk_AgentException :: "string \<Rightarrow> pyexn" where
  "mk_AgentException detail = AgentException (''Agent error: '' @ detail)"

text \<open>\<open>[x for x in xs if x is not None]\<close>\<close>

fun non_null :: "'a option list \<Rightarrow> 'a list" where
  "non_null [] = []"
| "non_null (None # xs) = non_null xs"
| "non_null (Some x # xs) = x # non_null xs"

text \<open>\<open>xs[i]\<close>: a negative index counts from the end, out of range raises.\<close>

definition py_index :: "'a list \<Rightarrow> int \<Rightarrow> pyexn + 'a" where
  "py_index xs i =
     (if 0 \<le> i \<and> i < int (length xs) then Inr (xs ! nat i)
      else if i < 0 \<and> - int (length xs) \<le> i then Inr (xs ! nat (int (length xs) + i))
      else Inl (IndexError ''list index out of range''))"

text \<open>\<open>xs[:k]\<close> for an integer \<open>k\<close> of either sign.\<close>

definition py_slice_to :: "'a list \<Rightarrow> int \<Rightarrow> 'a list" where
  "py_slice_to xs k =
     (if 0 \<le> k then take (nat k) xs else take (length xs - nat (- k)) xs)"

text \<open>\<open>xs[-k:]\<close> for a positive literal \<open>k\<close>.\<close>

definition py_last_n :: "nat \<Rightarrow> 'a list \<Rightarrow> 'a list" where
  "py_last_n k xs = drop (length xs - k) xs"

text \<open>\<open>xs[-10:-5]\<close>\<close>

definition py_slice_m10_m5 :: "'a list \<Rightarrow> 'a list" where
  "py_slice_m10_m5 xs = drop (length xs - 10) (take (length xs - 5) xs)"

text \<open>\<open>min(xs)\<close> and \<open>max(xs)\<close> raise \<open>ValueError\<close> on an empty list.\<close>

fun py_min :: "rat list \<Rightarrow> pyexn + rat" where
  "py_min [] = Inl (ValueError ''min() arg is an empty sequence'')"
| "py_min (x # xs) = Inr (fold min xs x)"

fun py_max :: "rat list \<Rightarrow> pyexn + rat" where
  "py_max [] = Inl (ValueError ''max() arg is an empty sequence'')"
| "py_max (x # xs) = Inr (fold max xs x)"

text \<open>\<open>a > b\<close> and \<open>a < b\<close> on values that may be \<open>None\<close>: \<open>None\<close> does not compare.\<close>

fun py_gt :: "rat option \<Rightarrow> rat option \<Rightarrow> pyexn + bool" where
  "py_gt (Some a) (Some b) = Inr (b < a)"
| "py_gt _ _ = Inl (TypeError ''> not supported between instances'')"

fun py_lt :: "rat option \<Rightarrow> rat option \<Rightarrow> pyexn + bool" where
  "py_lt (Some a) (Some b) = Inr (a < b)"
| "py_lt _ _ = Inl (TypeError ''< not supported between instances'')"

text \<open>Truthiness of an optional number: \<open>None\<close> and zero are falsy.\<close>

fun truthy_num :: "rat option \<Rightarrow> bool" where
  "truthy_num None = False"
| "truthy_num (Some x) = (x \<noteq> 0)"

text \<open>
  Rounding of an exact value to the nearest integer, ties to even, which is what
  \<open>round\<close> and the \<open>.2f\<close> format do on the exact value of their argument.
\<close>

definition round_half_even :: "rat \<Rightarrow> int" where
  "round_half_even x =
     (let f = \<lfloor>x\<rfloor>; d = x - of_int f
      in if d < 1 / 2 then f
         else if 1 / 2 < d then f + 1
         else if even f then f else f + 1)"

text \<open>\<open>round(x, 2)\<close>\<close>

definition py_round2 :: "rat \<Rightarrow> rat" where
  "py_round2 x = of_int (round_half_even (x * 100)) / 100"

text \<open>\<open>int(x)\<close> truncates toward zero.\<close>

definition py_int :: "rat \<Rightarrow> int" where
  "py_int x = (if 0 \<le> x then \<lfloor>x\<rfloor> else \<lceil>x\<rceil>)"

text \<open>Decimal digits of a natural number, and the \<open>.2f\<close> format.\<close>

definition digit_char :: "nat \<Rightarrow> char" where
  "digit_char d = char_of (48 + d)"

function show_nat :: "nat \<Rightarrow> string" where
  "show_nat n = (if n < 10 then [digit_char n] else show_nat (n div 10) @ [digit_char (n mod 10)])"
  by pat_completeness auto
termination
  by (relation "measure id") auto

declare show_nat.simps [simp del]

definition fmt_2f :: "rat \<Rightarrow> string" where
  "fmt_2f x =
     (let c = nat (round_half_even (\<bar>x\<bar> * 100))
      in (if x < 0 then ''-'' else '''') @ show_nat (c div 100) @ ''.''
         @ [digit_char ((c mod 100) div 10), digit_char (c mod 10)])"

text \<open>\<open>s.upper()\<close> and \<open>s.lower()\<close> on ASCII letters; \<open>needle in s\<close> on strings.\<close>

definition upper_char :: "char \<Rightarrow> char" where
  "upper_char c =
     (let k = of_char c :: nat in if 97 \<le> k \<and> k \<le> 122 then char_of (k - 32) else c)"

definition lower_char :: "char \<Rightarrow> char" where
  "lower_char c =
     (let k = of_char c :: nat in if 65 \<le> k \<and> k \<le> 90 then char_of (k + 32) else c)"

definition upper :: "string \<Rightarrow> string" where
  "upper s = map upper_char s"

definition lower :: "string \<Rightarrow> string" where
  "lower s = map lower_char s"

fun starts_with :: "string \<Rightarrow> string \<Rightarrow> bool" where
  "starts_with [] s = True"
| "starts_with (p # ps) [] = False"
| "starts_with (p # ps) (c # cs) = (p = c \<and> starts_with ps cs)"

fun contains :: "string \<Rightarrow> string \<Rightarrow> bool" where
  "contains needle [] = (needle = [])"
| "contains needle (c # cs) = (starts_with needle (c # cs) \<or> contains needle cs)"

section \<open>Price fetcher (app/agents/tools/price\_tool.py)\<close>

text \<open>
  The time series the market-data endpoint returns, after the JSON has been taken apart
  (\<open>quotes['high']\<close> and so on); an entry may be \<open>null\<close>.
\<close>

record quote_series =
  highs :: "rat option list"
  lows :: "rat option list"
  closes :: "rat option list"
  volumes :: "rat option list"

record PriceAnalysisResult =
  symbol :: string
  current_price :: rat
  price_change_percentage :: rat
  price_range :: string
  trend_direction :: string
  volume_trend :: string
  support_levels :: "rat list"
  resistance_levels :: "rat list"
  moving_averages :: "(string \<times> rat) list"
  rsi :: "rat option"
  timestamp :: nat

definition calculate_support_resistance :: "rat option list \<Rightarrow> string \<Rightarrow> pyexn + rat list" where
  "calculate_support_resistance prices level_type =
     (if prices = [] then Inr []
      else
        let valid_prices = non_null prices in
        if valid_prices = [] then Inr []
        else if level_type = ''support'' then
          (case py_min valid_prices of
             Inl e \<Rightarrow> Inl e
           | Inr m \<Rightarrow>
               if 10 < length valid_prices then
                 (case py_index (sort valid_prices) (int (length valid_prices) div 10) of
                    Inl e \<Rightarrow> Inl e
                  | Inr p \<Rightarrow> Inr (map py_round2 [m, p]))
               else Inr (map py_round2 [m]))
        else
          (case py_max valid_prices of
             Inl e \<Rightarrow> Inl e
           | Inr m \<Rightarrow>
               if 10 < length valid_prices then
                 (case py_index (sort valid_prices) ((- int (length valid_prices)) div 10) of
                    Inl e \<Rightarrow> Inl e
                  | Inr p \<Rightarrow> Inr (map py_round2 [m, p]))
               else Inr (map py_round2 [m])))"

text \<open>
  A dictionary in insertion order is an association list. The divisors \<open>min(20, len)\<close> and \<open>min(50, len)\<close> are at least 5 and 10 where they
  are used, so the divisions cannot raise.
\<close>

definition calculate_moving_averages :: "rat option list \<Rightarrow> (string \<times> rat) list" where
  "calculate_moving_averages prices =
     (let valid_prices = non_null prices in
      if valid_prices = [] then []
      else
        let ma_20 = (if 5 \<le> length valid_prices
                     then sum_list (py_last_n 20 valid_prices) / of_nat (min 20 (length valid_prices))
                     else last valid_prices);
            ma_50 = (if 10 \<le> length valid_prices
                     then sum_list (py_last_n 50 valid_prices) / of_nat (min 50 (length valid_prices))
                     else ma_20)
        in [(''MA_20'', py_round2 ma_20), (''MA_50'', py_round2 ma_50)])"

definition suffixes :: "string list" where
  "suffixes = [''-USD'', ''.SA'', ''.AX'', ''.L'', ''.TO'']"

definition crypto_tickers :: "string list" where
  "crypto_tickers =
     [''BTC'', ''ETH'', ''USDT'', ''BNB'', ''XRP'', ''SOL'', ''USDC'', ''DOGE'', ''ADA'', ''TRX'',
      ''LINK'', ''LTC'', ''BCH'', ''XLM'', ''SUI'', ''AVAX'', ''HBAR'', ''ZEC'', ''ETC'', ''NEO'',
      ''XMR'', ''DOGE'', ''FIL'', ''APE'', ''MKR'', ''ATOM'', ''THETA'', ''EOS'', ''ALGO'', ''VET'']"

definition formatted_symbol :: "string \<Rightarrow> string" where
  "formatted_symbol symb =
     (let symbol_upper = upper symb;
          has_suffix = list_ex (\<lambda>ext. contains ext symbol_upper) suffixes
      in if \<not> has_suffix
         then (if symbol_upper \<in> set crypto_tickers then symbol_upper @ ''-USD'' else symbol_upper)
         else symbol_upper)"

definition period_map :: "string \<rightharpoonup> string" where
  "period_map =
     [''1week'' \<mapsto> ''5d'', ''2weeks'' \<mapsto> ''10d'', ''1month'' \<mapsto> ''1mo'',
      ''3months'' \<mapsto> ''3mo'', ''6months'' \<mapsto> ''6mo'', ''1year'' \<mapsto> ''1y'']"

definition yahoo_period :: "string \<Rightarrow> string" where
  "yahoo_period period = (case period_map period of Some p \<Rightarrow> p | None \<Rightarrow> ''1mo'')"

definition recent_trend :: "rat option list \<Rightarrow> pyexn + string" where
  "recent_trend cs =
     (if 5 \<le> length cs then
        (case py_gt (last cs) (cs ! (length cs - 5)) of
           Inl e \<Rightarrow> Inl e
         | Inr True \<Rightarrow> Inr ''bullish''
         | Inr False \<Rightarrow>
             (case py_lt (last cs) (cs ! (length cs - 5)) of
                Inl e \<Rightarrow> Inl e
              | Inr True \<Rightarrow> Inr ''bearish''
              | Inr False \<Rightarrow> Inr ''neutral''))
      else Inr ''neutral'')"

definition volume_trend_of :: "rat option list \<Rightarrow> string" where
  "volume_trend_of vs =
     (if vs \<noteq> [] \<and> 5 \<le> length vs then
        let recent_volumes = non_null (py_last_n 5 vs) in
        if recent_volumes \<noteq> [] then
          let recent_volume = sum_list recent_volumes / of_nat (length recent_volumes);
              earlier_volumes = non_null (py_slice_m10_m5 vs);
              earlier_volume = (if earlier_volumes \<noteq> []
                                then sum_list earlier_volumes / of_nat (length earlier_volumes)
                                else recent_volume)
          in if earlier_volume < recent_volume then ''increasing'' else ''decreasing''
        else ''unknown''
      else ''stable'')"

definition price_range_of :: "rat option list \<Rightarrow> rat option list \<Rightarrow> pyexn + string" where
  "price_range_of hs ls =
     (let valid_highs = non_null hs; valid_lows = non_null ls in
      if valid_highs \<noteq> [] \<and> valid_lows \<noteq> [] then
        (case py_min valid_lows of
           Inl e \<Rightarrow> Inl e
         | Inr lo \<Rightarrow>
             (case py_max valid_highs of
                Inl e \<Rightarrow> Inl e
              | Inr hi \<Rightarrow> Inr (''$'' @ fmt_2f lo @ ''-$'' @ fmt_2f hi)))
      else Inr ''N/A'')"

text \<open>
  \<open>(current_price - start_price) / start_price * 100 if start_price else 0\<close>: the
  subtraction raises when the last close is \<open>None\<close> and the first is a non-zero number.
\<close>

definition price_change_pct :: "rat option \<Rightarrow> rat option \<Rightarrow> pyexn + rat" where
  "price_change_pct cur start =
     (if truthy_num start then
        (case cur of
           None \<Rightarrow> Inl (TypeError ''unsupported operand type(s) for -'')
         | Some c \<Rightarrow> Inr ((c - the start) / the start * 100))
      else Inr 0)"

text \<open>
  The body of the \<open>try\<close> block of \<open>get_price_data\<close>. \<open>fetch\<close> is the HTTP request
  (formatted symbol, range, interval), an error when the request, the status check or the
  decoding of the payload raises. The record constructor validates its fields: a
  \<open>current_price\<close> of \<open>None\<close> is rejected.
\<close>

definition get_price_data_body ::
  "(string \<Rightarrow> string \<Rightarrow> string \<Rightarrow> pyexn + quote_series) \<Rightarrow> nat \<Rightarrow> string \<Rightarrow> string \<Rightarrow> string
     \<Rightarrow> pyexn + PriceAnalysisResult" where
  "get_price_data_body fetch now symb period interval =
     (case fetch (formatted_symbol symb) (yahoo_period period) interval of
        Inl e \<Rightarrow> Inl e
      | Inr q \<Rightarrow>
          let cs = closes q;
              cur = (if cs \<noteq> [] then last cs else Some 0);
              start = (if cs \<noteq> [] then hd cs else cur)
          in
          (case price_change_pct cur start of
             Inl e \<Rightarrow> Inl e
           | Inr pct \<Rightarrow>
           (case price_range_of (highs q) (lows q) of
              Inl e \<Rightarrow> Inl e
            | Inr rng \<Rightarrow>
            (case recent_trend cs of
               Inl e \<Rightarrow> Inl e
             | Inr trend \<Rightarrow>
             (case calculate_support_resistance (lows q) ''support'' of
                Inl e \<Rightarrow> Inl e
              | Inr sup_lv \<Rightarrow>
              (case calculate_support_resistance (highs q) ''resistance'' of
                 Inl e \<Rightarrow> Inl e
               | Inr res_lv \<Rightarrow>
                 (case cur of
                    None \<Rightarrow> Inl (ValidationError ''current_price: input should be a valid number'')
                  | Some c \<Rightarrow>
                      Inr \<lparr> symbol = symb,
                            current_price = c,
                            price_change_percentage = py_round2 pct,
                            price_range = rng,
                            trend_direction = trend,
                            volume_trend = volume_trend_of (volumes q),
                            support_levels = sup_lv,
                            resistance_levels = res_lv,
                            moving_averages = calculate_moving_averages cs,
                            rsi = None,
                            timestamp = now \<rparr>)))))))"

text \<open>
  \<open>get_price_data\<close>: the \<open>except Exception\<close> clause logs and falls off the end of the
  function, which returns \<open>None\<close>.
\<close>

definition get_price_data ::
  "(string \<Rightarrow> string \<Rightarrow> string \<Rightarrow> pyexn + quote_series) \<Rightarrow> nat \<Rightarrow> string \<Rightarrow> string \<Rightarrow> string
     \<Rightarrow> pyexn + PriceAnalysisResult option" where
  "get_price_data fetch now symb period interval =
     (case get_price_data_body fetch now symb period interval of
        Inl e \<Rightarrow> Inr None
      | Inr r \<Rightarrow> Inr (Some r))"

section \<open>News fetcher (app/agents/tools/news\_tool.py)\<close>

record NewsArticle =
  title :: string
  source :: string
  published_at :: string
  description :: "string option"
  url :: "string option"
  sentiment :: "string option"

record NewsAnalysisResult =
  news_symbol :: string
  articles :: "NewsArticle list"
  overall_sentiment :: string
  fear_greed_index :: "int option"
  key_themes :: "string list"
  news_timestamp :: nat

text \<open>One entry of the \<open>articles\<close> array of the news endpoint's payload.\<close>

record raw_article =
  raw_title :: string
  raw_source_name :: string
  raw_published_at :: string
  raw_description :: "string option"
  raw_url :: "string option"

text \<open>
  What the news fetcher reads from its surroundings: the credential from the process
  environment, the HTTP request (query and page size; an error when the request, the status
  check or the decoding raises), the clock, and the ISO rendering of the instant \<open>i\<close>
  days before now.
\<close>

record news_env =
  news_api_key :: "string option"
  newsapi :: "string \<Rightarrow> int \<Rightarrow> pyexn + raw_article list"
  news_now :: nat
  days_ago_iso :: "nat \<Rightarrow> string"

text \<open>Truthiness of an optional string: \<open>None\<close> and the empty string are falsy.\<close>

fun truthy_str :: "string option \<Rightarrow> bool" where
  "truthy_str None = False"
| "truthy_str (Some s) = (s \<noteq> [])"

definition positive_words :: "string list" where
  "positive_words = [''bullish'', ''positive'', ''strong'', ''record'', ''beat'', ''growth'',
                     ''profit'', ''gain'', ''rise'', ''up'']"

definition negative_words :: "string list" where
  "negative_words = [''bearish'', ''negative'', ''weak'', ''loss'', ''fall'', ''drop'',
                     ''decline'', ''risk'', ''concern'', ''down'']"

definition analyze_sentiment :: "string \<Rightarrow> string" where
  "analyze_sentiment text =
     (let text_lower = lower text;
          positive_count = length (filter (\<lambda>w. contains w text_lower) positive_words);
          negative_count = length (filter (\<lambda>w. contains w text_lower) negative_words)
      in if negative_count < positive_count then ''positive''
         else if positive_count < negative_count then ''negative''
         else ''neutral'')"

text \<open>\<open>[article.sentiment for article in articles if article.sentiment]\<close>\<close>

definition sentiments_of :: "NewsArticle list \<Rightarrow> string list" where
  "sentiments_of arts = map (\<lambda>a. the (sentiment a)) (filter (\<lambda>a. truthy_str (sentiment a)) arts)"

definition calculate_overall_sentiment :: "NewsArticle list \<Rightarrow> string" where
  "calculate_overall_sentiment arts =
     (if arts = [] then ''neutral''
      else
        let sentiments = sentiments_of arts;
            positive_count = count_list sentiments ''positive'';
            negative_count = count_list sentiments ''negative''
        in if negative_count < positive_count then ''positive''
           else if positive_count < negative_count then ''negative''
           else ''neutral'')"

definition adjustments :: "string \<rightharpoonup> rat" where
  "adjustments = [''positive'' \<mapsto> 10, ''negative'' \<mapsto> - 10, ''neutral'' \<mapsto> 0]"

definition calculate_fear_greed_index :: "NewsArticle list \<Rightarrow> int" where
  "calculate_fear_greed_index arts =
     (if arts = [] then 50
      else
        let sentiments = sentiments_of arts;
            positive_count = count_list sentiments ''positive'';
            total = length sentiments
        in if total = 0 then 50
           else
             let base_score = (of_nat positive_count / of_nat total) * 100;
                 overall = calculate_overall_sentiment arts;
                 adjusted_score =
                   base_score + (case adjustments overall of Some a \<Rightarrow> a | None \<Rightarrow> 0)
             in max 0 (min 100 (py_int adjusted_score)))"

text \<open>
  The themes one article title contributes, and the themes of a list of articles.
  \<open>list(set(themes))[:5]\<close> keeps every distinct theme, since only five exist; the
  iteration order of a Python set is unspecified, and the model lists the themes in the
  order of their first occurrence.
\<close>

definition themes_of_title :: "string \<Rightarrow> string list" where
  "themes_of_title t =
     (let title_lower = lower t;
          hit = (\<lambda>ws. list_ex (\<lambda>w. contains w title_lower) ws)
      in (if hit [''earnings'', ''profit'', ''revenue''] then [''Financial Performance''] else [])
       @ (if hit [''product'', ''launch'', ''release''] then [''Product Development''] else [])
       @ (if hit [''regulation'', ''legal'', ''law''] then [''Regulatory Environment''] else [])
       @ (if hit [''partnership'', ''deal'', ''acquisition''] then [''Business Partnerships''] else [])
       @ (if hit [''market'', ''trading'', ''volume''] then [''Market Activity''] else []))"

definition extract_key_themes :: "NewsArticle list \<Rightarrow> string list" where
  "extract_key_themes arts = take 5 (remdups (concat (map (\<lambda>a. themes_of_title (title a)) arts)))"

definition analyse_articles :: "news_env \<Rightarrow> string \<Rightarrow> NewsArticle list \<Rightarrow> NewsAnalysisResult" where
  "analyse_articles env symb arts =
     \<lparr> news_symbol = symb,
       articles = arts,
       overall_sentiment = calculate_overall_sentiment arts,
       fear_greed_index = Some (calculate_fear_greed_index arts),
       key_themes = extract_key_themes arts,
       news_timestamp = news_now env \<rparr>"

definition article_of_raw :: "raw_article \<Rightarrow> NewsArticle" where
  "article_of_raw r =
     \<lparr> title = raw_title r,
       source = raw_source_name r,
       published_at = raw_published_at r,
       description = raw_description r,
       url = raw_url r,
       sentiment =
         Some (analyze_sentiment
                 (raw_title r @ '' '' @ (case raw_description r of Some d \<Rightarrow> d | None \<Rightarrow> ''''))) \<rparr>"

definition search_query_of :: "string \<Rightarrow> string option \<Rightarrow> string" where
  "search_query_of symb query =
     (if truthy_str query then the query
      else symb @ '' stock OR '' @ symb @ '' shares OR '' @ symb @ '' earnings'')"

definition get_real_news ::
  "news_env \<Rightarrow> string \<Rightarrow> string option \<Rightarrow> int \<Rightarrow> pyexn + NewsAnalysisResult" where
  "get_real_news env symb query max_results =
     (case newsapi env (search_query_of symb query) max_results of
        Inl e \<Rightarrow> Inl e
      | Inr raws \<Rightarrow>
          Inr (analyse_articles env symb (map article_of_raw (py_slice_to raws max_results))))"

text \<open>The mock table: title, source and sentiment of each entry.\<close>

definition mock_news :: "string \<rightharpoonup> (string \<times> string \<times> string) list" where
  "mock_news =
     [''AAPL'' \<mapsto>
        [(''Apple announces record iPhone sales'', ''Bloomberg'', ''positive''),
         (''New Apple AI features impress analysts'', ''CNBC'', ''positive''),
         (''Apple faces regulatory challenges in EU'', ''Reuters'', ''negative'')],
      ''TSLA'' \<mapsto>
        [(''Tesla deliveries exceed expectations'', ''Wall Street Journal'', ''positive''),
         (''New Tesla factory accelerates production'', ''Bloomberg'', ''positive''),
         (''Tesla faces competition from legacy automakers'', ''Reuters'', ''negative'')],
      ''BTC'' \<mapsto>
        [(''Bitcoin ETF approvals drive institutional adoption'', ''CoinDesk'', ''positive''),
         (''Regulatory clarity improves for cryptocurrencies'', ''Bloomberg'', ''positive''),
         (''Market volatility concerns persist'', ''Reuters'', ''negative'')]]"

definition generic_news :: "(string \<times> string \<times> string) list" where
  "generic_news =
     [(''Strong quarterly earnings reported'', ''Financial Times'', ''positive''),
      (''Market shows positive momentum'', ''Bloomberg'', ''positive''),
      (''Economic uncertainty affects performance'', ''Reuters'', ''negative'')]"

definition mock_article :: "news_env \<Rightarrow> nat \<times> (string \<times> string \<times> string) \<Rightarrow> NewsArticle" where
  "mock_article env p =
     (case p of (i, (t, src, sent)) \<Rightarrow>
        \<lparr> title = t, source = src, published_at = days_ago_iso env i,
          description = None, url = None, sentiment = Some sent \<rparr>)"

definition get_mock_news ::
  "news_env \<Rightarrow> string \<Rightarrow> string option \<Rightarrow> int \<Rightarrow> NewsAnalysisResult" where
  "get_mock_news env symb query max_results =
     (let symbol_news = (case mock_news (upper symb) of Some items \<Rightarrow> items | None \<Rightarrow> generic_news);
          arts = map (mock_article env) (enumerate 0 (py_slice_to symbol_news max_results))
      in analyse_articles env symb arts)"

definition get_financial_news ::
  "news_env \<Rightarrow> string \<Rightarrow> string option \<Rightarrow> int \<Rightarrow> pyexn + NewsAnalysisResult" where
  "get_financial_news env symb query max_results =
     (case (if truthy_str (news_api_key env)
            then get_real_news env symb query max_results
            else Inr (get_mock_news env symb query max_results)) of
        Inl e \<Rightarrow> Inr (get_mock_news env symb query max_results)
      | Inr r \<Rightarrow> Inr r)"




section \<open>Tool layer (app/agents/tools/agent\_tool.py)\<close>

text \<open>
  The tool operations return plain dictionaries with values of mixed type. A value is
  \<open>None\<close>, a number, a string, a list of strings, a list of numbers or a dictionary of
  numbers; a dictionary with string keys is a map.
\<close>

datatype pyval =
    PNone
  | PNum rat
  | PStr string
  | PStrs "string list"
  | PNums "rat list"
  | PMap "(string \<times> rat) list"

type_synonym pydict = "string \<rightharpoonup> pyval"

text \<open>\<open>d.get(key, default)\<close>\<close>

definition dict_get :: "pydict \<Rightarrow> string \<Rightarrow> pyval \<Rightarrow> pyval" where
  "dict_get d k dflt = (case d k of Some v \<Rightarrow> v | None \<Rightarrow> dflt)"

text \<open>\<open>v > c\<close> and \<open>v < c\<close> against a number: only a number compares.\<close>

fun py_gt_num :: "pyval \<Rightarrow> rat \<Rightarrow> pyexn + bool" where
  "py_gt_num (PNum x) c = Inr (c < x)"
| "py_gt_num v c = Inl (TypeError ''> not supported between instances'')"

fun py_lt_num :: "pyval \<Rightarrow> rat \<Rightarrow> pyexn + bool" where
  "py_lt_num (PNum x) c = Inr (x < c)"
| "py_lt_num v c = Inl (TypeError ''< not supported between instances'')"

fun truthy :: "pyval \<Rightarrow> bool" where
  "truthy PNone = False"
| "truthy (PNum x) = (x \<noteq> 0)"
| "truthy (PStr s) = (s \<noteq> [])"
| "truthy (PStrs xs) = (xs \<noteq> [])"
| "truthy (PNums xs) = (xs \<noteq> [])"
| "truthy (PMap kvs) = (kvs \<noteq> [])"

fun py_len :: "pyval \<Rightarrow> pyexn + nat" where
  "py_len (PStr s) = Inr (length s)"
| "py_len (PStrs xs) = Inr (length xs)"
| "py_len (PNums xs) = Inr (length xs)"
| "py_len (PMap kvs) = Inr (length kvs)"
| "py_len v = Inl (TypeError ''object has no len()'')"

subsection \<open>Price analysis\<close>

definition price_response :: "PriceAnalysisResult \<Rightarrow> string \<Rightarrow> pydict" where
  "price_response r period =
     [''symbol'' \<mapsto> PStr (symbol r),
      ''current_price'' \<mapsto> PNum (current_price r),
      ''price_change_percentage'' \<mapsto> PNum (price_change_percentage r),
      ''price_range'' \<mapsto> PStr (price_range r),
      ''trend_direction'' \<mapsto> PStr (trend_direction r),
      ''volume_trend'' \<mapsto> PStr (volume_trend r),
      ''support_levels'' \<mapsto> PNums (support_levels r),
      ''resistance_levels'' \<mapsto> PNums (resistance_levels r),
      ''moving_averages'' \<mapsto> PMap (moving_averages r),
      ''analysis_period'' \<mapsto> PStr period]"

definition price_placeholder :: "string \<Rightarrow> string \<Rightarrow> pyexn \<Rightarrow> pydict" where
  "price_placeholder symb period e =
     [''symbol'' \<mapsto> PStr symb,
      ''current_price'' \<mapsto> PNum 0,
      ''price_change_percentage'' \<mapsto> PNum 0,
      ''price_range'' \<mapsto> PStr ''N/A'',
      ''trend_direction'' \<mapsto> PStr ''unknown'',
      ''volume_trend'' \<mapsto> PStr ''unknown'',
      ''support_levels'' \<mapsto> PNums [],
      ''resistance_levels'' \<mapsto> PNums [],
      ''moving_averages'' \<mapsto> PMap [],
      ''analysis_period'' \<mapsto> PStr period,
      ''error'' \<mapsto> PStr (''Failed to get price data: '' @ str_exn e)]"

text \<open>
  The \<open>try\<close>/\<open>except\<close> of \<open>_get_price_analysis_impl\<close> around the awaited call, as a
  function of what the call produced: an exception, \<open>None\<close> or a record. Reading
  \<open>result.symbol\<close> on \<open>None\<close> raises \<open>AttributeError\<close> inside the \<open>try\<close> block.
\<close>

definition none_has_no_symbol :: string where
  "none_has_no_symbol =
     [CHR 0x27] @ ''NoneType'' @ [CHR 0x27] @ '' object has no attribute ''
     @ [CHR 0x27] @ ''symbol'' @ [CHR 0x27]"

definition price_analysis_of ::
  "pyexn + PriceAnalysisResult option \<Rightarrow> string \<Rightarrow> string \<Rightarrow> pyexn + pydict" where
  "price_analysis_of outcome symb period =
     (case (case outcome of
              Inl e \<Rightarrow> Inl e
            | Inr None \<Rightarrow> Inl (AttributeError none_has_no_symbol)
            | Inr (Some r) \<Rightarrow> Inr (price_response r period)) of
        Inl e \<Rightarrow> Inr (price_placeholder symb period e)
      | Inr d \<Rightarrow> Inr d)"

definition get_price_analysis_impl ::
  "(string \<Rightarrow> string \<Rightarrow> string \<Rightarrow> pyexn + quote_series) \<Rightarrow> nat \<Rightarrow> string \<Rightarrow> string
     \<Rightarrow> pyexn + pydict" where
  "get_price_analysis_impl fetch now symb period =
     price_analysis_of (get_price_data fetch now symb period ''1d'') symb period"


subsection \<open>News sentiment\<close>

definition news_response :: "NewsAnalysisResult \<Rightarrow> pydict" where
  "news_response r =
     [''symbol'' \<mapsto> PStr (news_symbol r),
      ''overall_sentiment'' \<mapsto> PStr (overall_sentiment r),
      ''fear_greed_index'' \<mapsto>
         (case fear_greed_index r of Some i \<Rightarrow> PNum (of_int i) | None \<Rightarrow> PNone),
      ''key_themes'' \<mapsto> PStrs (key_themes r),
      ''top_headlines'' \<mapsto> PStrs (map title (articles r)),
      ''article_sentiments'' \<mapsto> PStrs (sentiments_of (articles r)),
      ''risk_factors'' \<mapsto>
         PStrs (map (\<lambda>a. ''Negative news: '' @ title a)
                    (filter (\<lambda>a. sentiment a = Some ''negative'') (articles r)))]"

definition news_placeholder :: "string \<Rightarrow> pyexn \<Rightarrow> pydict" where
  "news_placeholder symb e =
     [''symbol'' \<mapsto> PStr symb,
      ''overall_sentiment'' \<mapsto> PStr ''neutral'',
      ''fear_greed_index'' \<mapsto> PNum 50,
      ''key_themes'' \<mapsto> PStrs [],
      ''top_headlines'' \<mapsto> PStrs [],
      ''article_sentiments'' \<mapsto> PStrs [],
      ''risk_factors'' \<mapsto> PStrs [''Data unavailable: '' @ str_exn e]]"

definition news_sentiment_of :: "pyexn + NewsAnalysisResult \<Rightarrow> string \<Rightarrow> pyexn + pydict" where
  "news_sentiment_of outcome symb =
     (case outcome of
        Inl e \<Rightarrow> Inr (news_placeholder symb e)
      | Inr r \<Rightarrow> Inr (news_response r))"

definition get_news_sentiment_impl :: "news_env \<Rightarrow> string \<Rightarrow> int \<Rightarrow> pyexn + pydict" where
  "get_news_sentiment_impl env symb max_results =
     news_sentiment_of (get_financial_news env symb None max_results) symb"


subsection \<open>Combined insights\<close>

text \<open>
  \<open>_generate_combined_insights\<close>. \<open>fmt\<close> is Python's \<open>str\<close> on a dictionary value,
  used by the f-strings. Each stage returns the insights it appended and whether it
  raised; the \<open>except\<close> clause then appends the "limited insights" line to what has been
  collected so far.
\<close>

definition price_stage :: "(pyval \<Rightarrow> string) \<Rightarrow> pydict \<Rightarrow> string list \<times> bool" where
  "price_stage fmt price_data =
     (let current_price = dict_get price_data ''current_price'' (PNum 0) in
      case py_gt_num current_price 0 of
        Inl e \<Rightarrow> ([], True)
      | Inr False \<Rightarrow> ([], False)
      | Inr True \<Rightarrow>
          let change_pct = dict_get price_data ''price_change_percentage'' (PNum 0);
              trend = dict_get price_data ''trend_direction'' (PStr ''unknown'')
          in ((if trend = PStr ''bullish''
               then [''Strong upward momentum with '' @ fmt change_pct @ ''% gain over the period'']
               else if trend = PStr ''bearish''
               then [''Facing downward pressure with '' @ fmt change_pct @ ''% decline'']
               else [])
              @ (if price_data ''volume_trend'' = Some (PStr ''increasing'')
                 then [''Increasing trading volume supports the price trend'']
                 else []),
              False))"

definition sentiment_phrase :: "pydict \<Rightarrow> string list" where
  "sentiment_phrase news_data =
     (let sentiment = dict_get news_data ''overall_sentiment'' (PStr ''neutral'') in
      if sentiment = PStr ''positive''
      then [''Positive market sentiment aligns with recent news flow'']
      else if sentiment = PStr ''negative''
      then [''Market sentiment shows concerns that may impact performance'']
      else [])"

definition fear_greed_stage :: "pydict \<Rightarrow> string list \<times> bool" where
  "fear_greed_stage news_data =
     (let fear_greed = dict_get news_data ''fear_greed_index'' (PNum 50) in
      case py_gt_num fear_greed 70 of
        Inl e \<Rightarrow> ([], True)
      | Inr True \<Rightarrow> ([''High greed index suggests optimistic market sentiment''], False)
      | Inr False \<Rightarrow>
          (case py_lt_num fear_greed 30 of
             Inl e \<Rightarrow> ([], True)
           | Inr True \<Rightarrow> ([''Low fear index may indicate potential buying opportunity''], False)
           | Inr False \<Rightarrow> ([], False)))"

definition headlines_stage :: "pydict \<Rightarrow> string list \<times> bool" where
  "headlines_stage news_data =
     (let headlines = dict_get news_data ''top_headlines'' (PStrs []) in
      if truthy headlines then
        (case py_len headlines of
           Inl e \<Rightarrow> ([], True)
         | Inr n \<Rightarrow> ([''Recent news includes '' @ show_nat n @ '' key developments''], False))
      else ([], False))"

definition limited :: string where
  "limited = ''Limited insights available due to data constraints''"

text \<open>The statements of the \<open>try\<close> block in order, stopping at the first that raises.\<close>

definition collect_insights :: "(pyval \<Rightarrow> string) \<Rightarrow> pydict \<Rightarrow> pydict \<Rightarrow> string list" where
  "collect_insights fmt price_data news_data =
     (case price_stage fmt price_data of
        (p, True) \<Rightarrow> p @ [limited]
      | (p, False) \<Rightarrow>
          (case fear_greed_stage news_data of
             (g, True) \<Rightarrow> p @ sentiment_phrase news_data @ g @ [limited]
           | (g, False) \<Rightarrow>
               (case headlines_stage news_data of
                  (h, True) \<Rightarrow> p @ sentiment_phrase news_data @ g @ h @ [limited]
                | (h, False) \<Rightarrow> p @ sentiment_phrase news_data @ g @ h)))"

definition generate_combined_insights ::
  "(pyval \<Rightarrow> string) \<Rightarrow> pydict \<Rightarrow> pydict \<Rightarrow> string list" where
  "generate_combined_insights fmt price_data news_data =
     (let insights = collect_insights fmt price_data news_data in
      if insights \<noteq> [] then take 5 insights
      else [''Analysis completed with available market data''])"

subsection \<open>Comprehensive analysis\<close>

record comprehensive =
  ca_symbol :: string
  ca_analysis_period :: string
  ca_price_analysis :: pydict
  ca_sentiment_analysis :: pydict
  ca_key_insights :: "string list"
  ca_summary :: "string option"
  ca_error :: "string option"

text \<open>
  \<open>get_comprehensive_analysis\<close> calls the two implementations one after the other (the
  news call with its default of five results) and derives the insights; an exception
  anywhere gives the failure record.
\<close>

definition get_comprehensive_analysis ::
  "(pyval \<Rightarrow> string) \<Rightarrow> (string \<Rightarrow> string \<Rightarrow> string \<Rightarrow> pyexn + quote_series) \<Rightarrow> nat \<Rightarrow> news_env
     \<Rightarrow> string \<Rightarrow> string \<Rightarrow> pyexn + comprehensive" where
  "get_comprehensive_analysis fmt fetch now env symb period =
     (case (case get_price_analysis_impl fetch now symb period of
              Inl e \<Rightarrow> Inl e
            | Inr price_data \<Rightarrow>
                (case get_news_sentiment_impl env symb 5 of
                   Inl e \<Rightarrow> Inl e
                 | Inr news_data \<Rightarrow>
                     Inr \<lparr> ca_symbol = symb,
                           ca_analysis_period = period,
                           ca_price_analysis = price_data,
                           ca_sentiment_analysis = news_data,
                           ca_key_insights = generate_combined_insights fmt price_data news_data,
                           ca_summary = Some (''Comprehensive analysis of '' @ symb @ '' over '' @ period),
                           ca_error = None \<rparr>)) of
        Inl e \<Rightarrow>
          Inr \<lparr> ca_symbol = symb,
                ca_analysis_period = period,
                ca_price_analysis = Map.empty,
                ca_sentiment_analysis = Map.empty,
                ca_key_insights = [''Analysis failed: '' @ str_exn e],
                ca_summary = None,
                ca_error = Some ''Unable to complete comprehensive analysis'' \<rparr>
      | Inr r \<Rightarrow> Inr r)"

section \<open>Conversation store (app/repositories/conversation\_repository.py)\<close>

text \<open>A turn is the dictionary with the keys \<open>role\<close>, \<open>content\<close> and \<open>timestamp\<close>.\<close>

record turn =
  role :: string
  content :: string
  turn_timestamp :: nat

record ConversationHistory =
  conversation_id :: string
  user_id :: string
  messages :: "turn list"
  created_at :: nat
  updated_at :: nat

type_synonym store = "string \<rightharpoonup> ConversationHistory"

text \<open>
  \<open>create_conversation\<close>: \<open>new_id\<close> is the identifier \<open>uuid4\<close> produced and \<open>now\<close>
  the clock reading; the assignment replaces whatever the dictionary held under that key.
\<close>

definition create_conversation :: "store \<Rightarrow> string \<Rightarrow> nat \<Rightarrow> string \<Rightarrow> string \<times> store" where
  "create_conversation st new_id now uid =
     (new_id,
      st(new_id \<mapsto> \<lparr> conversation_id = new_id, user_id = uid, messages = [],
                       created_at = now, updated_at = now \<rparr>))"

definition get_conversation :: "store \<Rightarrow> string \<Rightarrow> pyexn + ConversationHistory" where
  "get_conversation st cid =
     (case st cid of
        None \<Rightarrow> Inl (ValueError (''Conversation '' @ cid @ '' not found''))
      | Some conversation \<Rightarrow> Inr conversation)"

definition get_conversation_messages :: "store \<Rightarrow> string \<Rightarrow> pyexn + turn list" where
  "get_conversation_messages st cid =
     (case get_conversation st cid of
        Inl e \<Rightarrow> Inl e
      | Inr conversation \<Rightarrow> Inr (messages conversation))"

text \<open>
  \<open>add_message\<close> reads the clock twice: for the turn's timestamp, then for
  \<open>updated_at\<close>. A failed call leaves the store as it was.
\<close>

definition add_message ::
  "store \<Rightarrow> string \<Rightarrow> string \<Rightarrow> string \<Rightarrow> nat \<Rightarrow> nat \<Rightarrow> pyexn + store" where
  "add_message st cid r c t_turn t_upd =
     (case get_conversation st cid of
        Inl e \<Rightarrow> Inl e
      | Inr conversation \<Rightarrow>
          Inr (st(cid \<mapsto> conversation
                 \<lparr> messages := messages conversation
                                 @ [\<lparr> role = r, content = c, turn_timestamp = t_turn \<rparr>],
                   updated_at := t_upd \<rparr>)))"

text \<open>The operations of the store, and a run of them; a failing operation changes nothing.\<close>

datatype store_op =
    Create string nat string
  | Get string
  | GetMessages string
  | Add string string string nat nat

fun apply_store_op :: "store \<Rightarrow> store_op \<Rightarrow> store" where
  "apply_store_op st (Create new_id now uid) = snd (create_conversation st new_id now uid)"
| "apply_store_op st (Get cid) = st"
| "apply_store_op st (GetMessages cid) = st"
| "apply_store_op st (Add cid r c t_turn t_upd) =
     (case add_message st cid r c t_turn t_upd of Inl e \<Rightarrow> st | Inr st' \<Rightarrow> st')"

definition run_store_ops :: "store \<Rightarrow> store_op list \<Rightarrow> store" where
  "run_store_ops st ops = fold (\<lambda>op s. apply_store_op s op) ops st"

text \<open>The turns that the \<open>add_message\<close> calls for one conversation carry, in call order.\<close>

fun turns_for :: "string \<Rightarrow> store_op list \<Rightarrow> turn list" where
  "turns_for cid [] = []"
| "turns_for cid (Add cid' r c t_turn t_upd # ops) =
     (if cid' = cid then \<lparr> role = r, content = c, turn_timestamp = t_turn \<rparr> # turns_for cid ops
      else turns_for cid ops)"
| "turns_for cid (op # ops) = turns_for cid ops"

text \<open>Whether a run creates a conversation under the given identifier.\<close>

fun creates :: "string \<Rightarrow> store_op \<Rightarrow> bool" where
  "creates cid (Create new_id now uid) = (new_id = cid)"
| "creates cid op = False"

fun is_add_to :: "string \<Rightarrow> store_op \<Rightarrow> bool" where
  "is_add_to cid (Add cid' r c t_turn t_upd) = (cid' = cid)"
| "is_add_to cid op = False"

section \<open>Orchestration service (app/services/financial\_manager\_service.py)\<close>

text \<open>
  Only the second definition of \<open>process_message\<close> in the class is reachable and is
  the one modelled. A string is a sequence of characters; \<open>len\<close> counts them.
\<close>

definition newline :: string where
  "newline = [CHR 0x0A]"

text \<open>\<open>sep.join(lines)\<close>\<close>

fun py_join :: "string \<Rightarrow> string list \<Rightarrow> string" where
  "py_join sep [] = []"
| "py_join sep [x] = x"
| "py_join sep (x # y # ys) = x @ sep @ py_join sep (y # ys)"


subsection \<open>The enriched prompt\<close>

definition history_line :: "turn \<Rightarrow> string" where
  "history_line msg = (if role msg = ''user'' then ''User'' else ''Assistant'') @ '': '' @ content msg"

text \<open>
  The lines assembled before the length check. \<open>fmt\<close> is Python's \<open>str\<close> on a context
  value; the user context is a dictionary in insertion order.
\<close>

definition context_lines ::
  "(pyval \<Rightarrow> string) \<Rightarrow> string \<Rightarrow> turn list \<Rightarrow> (string \<times> pyval) list \<Rightarrow> string list" where
  "context_lines fmt message history user_context =
     (if history \<noteq> []
      then [''Previous conversation:''] @ map history_line (py_last_n 6 history) @ ['''']
      else [])
     @ (if user_context \<noteq> []
        then [''User context:'']
             @ map (\<lambda>(key, v). ''- '' @ key @ '': '' @ fmt v) user_context @ ['''']
        else [])
     @ [''Current question: '' @ message]"

definition fallback_message ::
  "((string \<times> pyval) list \<Rightarrow> string) \<Rightarrow> string \<Rightarrow> (string \<times> pyval) list \<Rightarrow> string \<Rightarrow> string" where
  "fallback_message repr_ctx message user_context cid =
     ''Conversation ID: '' @ cid @ newline @ newline @ ''Question: '' @ message
     @ (if user_context \<noteq> []
        then newline @ newline @ ''User context: '' @ repr_ctx user_context
        else [])"

text \<open>\<open>repr_ctx\<close> is the rendering of the whole dictionary that the f-string inserts.\<close>

definition enhance_message_with_context ::
  "(pyval \<Rightarrow> string) \<Rightarrow> ((string \<times> pyval) list \<Rightarrow> string)
     \<Rightarrow> string \<Rightarrow> turn list \<Rightarrow> (string \<times> pyval) list \<Rightarrow> string \<Rightarrow> string" where
  "enhance_message_with_context fmt repr_ctx message history user_context cid =
     (let enhanced_message = py_join newline (context_lines fmt message history user_context)
      in if 4000 < length enhanced_message
         then fallback_message repr_ctx message user_context cid
         else enhanced_message)"

subsection \<open>The agent and its response\<close>

text \<open>
  The agent runtime is outside the repository. A call names its calling convention; the
  agent answers each call with a result or an exception.
\<close>

datatype agent_call = Positional string | Prompt string | Input string | NoArgs

text \<open>
  The attributes of a response part that the service probes: \<open>content\<close> (absent, or a
  value that may or may not be a string), the part being a plain string, \<open>tool_name\<close>,
  \<open>tool_calls\<close>.
\<close>

record part =
  content_attr :: "pyval option"
  str_value :: "string option"
  has_tool_name :: bool
  has_tool_calls :: bool

text \<open>
  The attributes of a response: \<open>parts\<close>, the response being a plain string, \<open>data\<close>
  (as \<open>str\<close> renders it), \<open>text\<close>, \<open>str\<close> of the whole response, and
  \<open>processing_time\<close>; \<open>None\<close> is an absent attribute.
\<close>

record agent_result =
  parts_attr :: "part list option"
  as_str :: "string option"
  data_attr :: "string option"
  text_attr :: "string option"
  rendered :: string
  processing_time :: "rat option"

type_synonym agent = "agent_call \<Rightarrow> pyexn + agent_result"

text \<open>
  \<open>_run_agent_with_tools\<close>: a \<open>TypeError\<close> that mentions an unexpected keyword argument
  starts the chain of alternative calling conventions; any other exception propagates.
\<close>

definition run_agent_with_tools :: "agent \<Rightarrow> string \<Rightarrow> pyexn + agent_result" where
  "run_agent_with_tools ag message =
     (case ag (Positional message) of
        Inr r \<Rightarrow> Inr r
      | Inl (TypeError m) \<Rightarrow>
          if contains ''unexpected keyword argument'' m then
            (case ag (Prompt message) of
               Inr r \<Rightarrow> Inr r
             | Inl (TypeError m1) \<Rightarrow>
                 (case ag (Input message) of
                    Inr r \<Rightarrow> Inr r
                  | Inl (TypeError m2) \<Rightarrow> ag NoArgs
                  | Inl e \<Rightarrow> Inl e)
             | Inl e \<Rightarrow> Inl e)
          else Inl (TypeError m)
      | Inl e \<Rightarrow> Inl e)"

text \<open>
  The texts collected from the parts, and their join, which raises when a collected
  \<open>content\<close> is not a string.
\<close>

fun text_parts_of :: "part list \<Rightarrow> pyval list" where
  "text_parts_of [] = []"
| "text_parts_of (p # ps) =
     (case content_attr p of
        Some v \<Rightarrow> v # text_parts_of ps
      | None \<Rightarrow>
          (case str_value p of
             Some s \<Rightarrow> PStr s # text_parts_of ps
           | None \<Rightarrow> text_parts_of ps))"

fun strings_of :: "pyval list \<Rightarrow> pyexn + string list" where
  "strings_of [] = Inr []"
| "strings_of (PStr s # vs) =
     (case strings_of vs of Inl e \<Rightarrow> Inl e | Inr ss \<Rightarrow> Inr (s # ss))"
| "strings_of (v # vs) = Inl (TypeError ''sequence item: expected str instance'')"

definition extract_response_text :: "agent_result \<Rightarrow> string" where
  "extract_response_text result =
     (case (if parts_attr result \<noteq> None \<and> the (parts_attr result) \<noteq> []
            then (case strings_of (text_parts_of (the (parts_attr result))) of
                    Inl e \<Rightarrow> Inl e
                  | Inr ss \<Rightarrow> Inr (py_join newline ss))
            else (case as_str result of
                    Some s \<Rightarrow> Inr s
                  | None \<Rightarrow>
                      (case data_attr result of
                         Some d \<Rightarrow> Inr d
                       | None \<Rightarrow>
                           (case text_attr result of
                              Some t \<Rightarrow> Inr t
                            | None \<Rightarrow> Inr (rendered result))))) of
        Inl e \<Rightarrow> rendered result
      | Inr s \<Rightarrow> s)"

definition check_if_tools_used :: "agent_result \<Rightarrow> bool" where
  "check_if_tools_used result =
     (case parts_attr result of
        None \<Rightarrow> False
      | Some ps \<Rightarrow> list_ex (\<lambda>p. has_tool_name p \<or> has_tool_calls p) ps)"

subsection \<open>Processing a message\<close>

datatype AgentType = FINANCIAL_MANAGER

record ChatResponse =
  response :: string
  resp_conversation_id :: string
  resp_agent_type :: AgentType
  resp_timestamp :: nat
  meta_processing_time :: "rat option"
  meta_tool_used :: bool

text \<open>
  What one request reads from its surroundings: the registered agents, the identifier
  \<open>uuid4\<close> would produce, the clock readings in the order they are taken, and the two
  renderings used by the enriched prompt.
\<close>

record svc_env =
  agents :: "AgentType \<Rightarrow> agent option"
  new_id :: string
  t_create :: nat
  t_user_turn :: nat
  t_user_upd :: nat
  t_asst_turn :: nat
  t_asst_upd :: nat
  t_response :: nat
  fmt_value :: "pyval \<Rightarrow> string"
  repr_context :: "(string \<times> pyval) list \<Rightarrow> string"

definition get_agent :: "svc_env \<Rightarrow> AgentType \<Rightarrow> pyexn + agent" where
  "get_agent env agent_type =
     (case agents env agent_type of
        None \<Rightarrow> Inl (mk_AgentException ''Agent type AgentType.FINANCIAL_MANAGER not available'')
      | Some ag \<Rightarrow> Inr ag)"

text \<open>Step 1: take the given conversation identifier or create a conversation.\<close>

definition resolve_conversation :: "svc_env \<Rightarrow> store \<Rightarrow> string option \<Rightarrow> string \<times> store" where
  "resolve_conversation env st conv_id =
     (if \<not> truthy_str conv_id
      then create_conversation st (new_id env) (t_create env) ''anonymous''
      else (the conv_id, st))"

text \<open>
  The body of the \<open>try\<close> block, from the resolved conversation on. The store is returned
  as it stands when the block ends or raises.
\<close>

definition process_message_body ::
  "svc_env \<Rightarrow> store \<Rightarrow> string \<Rightarrow> string \<Rightarrow> AgentType \<Rightarrow> (string \<times> pyval) list
     \<Rightarrow> (pyexn + ChatResponse) \<times> store" where
  "process_message_body env st1 cid message agent_type ctx =
     (case get_agent env agent_type of
        Inl e \<Rightarrow> (Inl e, st1)
      | Inr ag \<Rightarrow>
      (case get_conversation_messages st1 cid of
         Inl e \<Rightarrow> (Inl e, st1)
       | Inr history \<Rightarrow>
       (case run_agent_with_tools ag
               (enhance_message_with_context (fmt_value env) (repr_context env)
                  message history ctx cid) of
          Inl e \<Rightarrow> (Inl e, st1)
        | Inr result \<Rightarrow>
          let response_text = extract_response_text result in
          (case add_message st1 cid ''user'' message (t_user_turn env) (t_user_upd env) of
             Inl e \<Rightarrow> (Inl e, st1)
           | Inr st2 \<Rightarrow>
           (case add_message st2 cid ''assistant'' response_text
                   (t_asst_turn env) (t_asst_upd env) of
              Inl e \<Rightarrow> (Inl e, st2)
            | Inr st3 \<Rightarrow>
                (Inr \<lparr> response = response_text,
                       resp_conversation_id = cid,
                       resp_agent_type = agent_type,
                       resp_timestamp = t_response env,
                       meta_processing_time = processing_time result,
                       meta_tool_used = check_if_tools_used result \<rparr>,
                 st3))))))"

text \<open>
  \<open>process_message\<close>: \<open>context or {}\<close> is the context, an absent one being empty; the
  \<open>except\<close> clause wraps whatever the block raised.
\<close>

definition process_message ::
  "svc_env \<Rightarrow> store \<Rightarrow> string \<Rightarrow> AgentType \<Rightarrow> string option \<Rightarrow> (string \<times> pyval) list option
     \<Rightarrow> (pyexn + ChatResponse) \<times> store" where
  "process_message env st message agent_type conv_id ctx =
     (case resolve_conversation env st conv_id of
        (cid, st1) \<Rightarrow>
          (case process_message_body env st1 cid message agent_type
                  (case ctx of Some c \<Rightarrow> c | None \<Rightarrow> []) of
             (Inl e, st') \<Rightarrow>
               (Inl (mk_AgentException (''Message processing failed: '' @ str_exn e)), st')
           | (Inr resp, st') \<Rightarrow> (Inr resp, st')))"

section \<open>Concrete inputs\<close>







text \<open>News environments: no credential; a credential with a failing request.\<close>

definition env_no_key :: news_env where
  "env_no_key = \<lparr> news_api_key = None, newsapi = (\<lambda>q n. Inr []), news_now = 0,
                   days_ago_iso = (\<lambda>i. ''2025-01-01T00:00:00'') \<rparr>"

definition env_failing :: news_env where
  "env_failing = \<lparr> news_api_key = Some ''k'',
                    newsapi = (\<lambda>q n. Inl (UpstreamError ''429 Too Many Requests'')),
                    news_now = 0, days_ago_iso = (\<lambda>i. ''2025-01-01T00:00:00'') \<rparr>"


definition art_positive :: NewsArticle where
  "art_positive = \<lparr> title = ''Record sales'', source = ''Reuters'',
       published_at = ''2025-01-01'', description = None, url = None,
       sentiment = Some ''positive'' \<rparr>"

definition art_negative :: NewsArticle where
  "art_negative = \<lparr> title = ''Weak outlook'', source = ''Reuters'',
       published_at = ''2025-01-01'', description = None, url = None,
       sentiment = Some ''negative'' \<rparr>"


text \<open>
  Dictionaries for the insights: a price result with a negative last close (a futures
  contract that settled below zero) in a falling market with rising volume, and news
  results.
\<close>

definition negative_price_data :: pydict where
  "negative_price_data =
     [''current_price'' \<mapsto> PNum (- 3763 / 100),
      ''price_change_percentage'' \<mapsto> PNum (- 28522 / 100),
      ''trend_direction'' \<mapsto> PStr ''bearish'',
      ''volume_trend'' \<mapsto> PStr ''increasing'']"

definition bullish_price_data :: pydict where
  "bullish_price_data =
     [''current_price'' \<mapsto> PNum 195,
      ''price_change_percentage'' \<mapsto> PNum 5,
      ''trend_direction'' \<mapsto> PStr ''bullish'',
      ''volume_trend'' \<mapsto> PStr ''increasing'']"

definition greedy_news_data :: pydict where
  "greedy_news_data =
     [''overall_sentiment'' \<mapsto> PStr ''positive'',
      ''fear_greed_index'' \<mapsto> PNum 76,
      ''top_headlines'' \<mapsto> PStrs [''a'', ''b'', ''c'']]"

text \<open>A rendering of dictionary values for the examples.\<close>

fun fmt_example :: "pyval \<Rightarrow> string" where
  "fmt_example (PStr s) = s"
| "fmt_example (PNum x) = fmt_2f x"
| "fmt_example v = ''None''"

text \<open>A store with one fresh conversation, and a run of operations on it.\<close>

definition store_c1 :: store where
  "store_c1 = snd (create_conversation Map.empty ''c1'' 10 ''anonymous'')"

definition ops_c1 :: "store_op list" where
  "ops_c1 =
     [Add ''c1'' ''user'' ''price of AAPL?'' 11 12,
      Create ''c2'' 13 ''bob'',
      Add ''c2'' ''user'' ''hello'' 14 15,
      GetMessages ''c1'',
      Add ''c9'' ''user'' ''lost'' 16 17,
      Add ''c1'' ''assistant'' ''AAPL trades at 195'' 18 19]"

text \<open>
  A rendering of a context dictionary for the examples, a long assistant turn, and a user
  context.
\<close>

definition repr_example :: "(string \<times> pyval) list \<Rightarrow> string" where
  "repr_example kvs =
     ''{'' @ py_join '', ''
               (map (\<lambda>(k, v). [CHR 0x27] @ k @ [CHR 0x27] @ '': ''
                                @ [CHR 0x27] @ fmt_example v @ [CHR 0x27]) kvs)
     @ ''}''"



text \<open>Agents: one that answers every call, one whose every call fails.\<close>

definition answer :: agent_result where
  "answer = \<lparr> parts_attr = None, as_str = None, data_attr = Some ''AAPL trades at 195'',
              text_attr = None, rendered = ''AgentRunResult'', processing_time = None \<rparr>"

definition agent_ok :: agent where
  "agent_ok call = Inr answer"

definition agent_down :: agent where
  "agent_down call = Inl (UpstreamError ''model request timed out'')"

definition env_ok :: svc_env where
  "env_ok = \<lparr> agents = (\<lambda>t. Some agent_ok), new_id = ''c1'', t_create = 10, t_user_turn = 11,
              t_user_upd = 12, t_asst_turn = 13, t_asst_upd = 14, t_response = 15,
              fmt_value = fmt_example, repr_context = repr_example \<rparr>"

definition env_down :: svc_env where
  "env_down = \<lparr> agents = (\<lambda>t. Some agent_down), new_id = ''c1'', t_create = 10, t_user_turn = 11,
              t_user_upd = 12, t_asst_turn = 13, t_asst_upd = 14, t_response = 15,
              fmt_value = fmt_example, repr_context = repr_example \<rparr>"

section \<open>Properties of the price fetcher\<close>

subsection \<open>Python list primitives\<close>











subsection \<open>Support and resistance levels\<close>





subsection \<open>The derivation of \<open>get_price_data\<close>\<close>












section \<open>Properties of the news fetcher\<close>

subsection \<open>Majority vote and the fear and greed index\<close>

lemma overall_sentiment_majority:
  "calculate_overall_sentiment arts =
     (if count_list (sentiments_of arts) ''negative'' < count_list (sentiments_of arts) ''positive''
      then ''positive''
      else if count_list (sentiments_of arts) ''positive'' < count_list (sentiments_of arts) ''negative''
      then ''negative'' else ''neutral'')"
  by (simp add: calculate_overall_sentiment_def sentiments_of_def Let_def)









subsection \<open>The mock fallback\<close>

lemma get_real_news_fails:
  "newsapi env (search_query_of symb query) max_results = Inl e \<Longrightarrow>
   get_real_news env symb query max_results = Inl e"
  by (simp add: get_real_news_def)

lemma get_financial_news_total:
  "\<exists>r. get_financial_news env symb query max_results = Inr r"
  by (simp add: get_financial_news_def split: sum.splits)

lemma mock_aapl_articles:
  "upper symb = ''AAPL'' \<Longrightarrow>
   map (\<lambda>a. (title a, source a, sentiment a)) (articles (get_mock_news env symb query 5))
     = [(''Apple announces record iPhone sales'', ''Bloomberg'', Some ''positive''),
        (''New Apple AI features impress analysts'', ''CNBC'', Some ''positive''),
        (''Apple faces regulatory challenges in EU'', ''Reuters'', Some ''negative'')]"
  by (simp add: get_mock_news_def mock_news_def py_slice_to_def mock_article_def
        analyse_articles_def Let_def)

lemma mock_aapl_sentiment:
  "upper symb = ''AAPL'' \<Longrightarrow>
   overall_sentiment (get_mock_news env symb query 5) = ''positive''"
  by (simp add: get_mock_news_def mock_news_def py_slice_to_def mock_article_def
        analyse_articles_def calculate_overall_sentiment_def sentiments_of_def Let_def)

lemma mock_article_fields:
  "map (\<lambda>a. (title a, source a, sentiment a)) (map (mock_article env) (enumerate n items))
     = map (\<lambda>(t, s, v). (t, s, Some v)) items"
  by (induction items arbitrary: n) (auto simp add: mock_article_def)

lemma mock_generic:
  "mock_news (upper symb) = None \<Longrightarrow>
   map (\<lambda>a. (title a, source a, sentiment a)) (articles (get_mock_news env symb query max_results))
     = map (\<lambda>(t, s, v). (t, s, Some v)) (py_slice_to generic_news max_results)"
  by (simp add: get_mock_news_def analyse_articles_def Let_def mock_article_fields del: map_map)

lemma mock_known:
  "mock_news (upper symb) = Some items \<Longrightarrow>
   map (\<lambda>a. (title a, source a, sentiment a)) (articles (get_mock_news env symb query max_results))
     = map (\<lambda>(t, s, v). (t, s, Some v)) (py_slice_to items max_results)"
  by (simp add: get_mock_news_def analyse_articles_def Let_def mock_article_fields del: map_map)

lemma mock_overall:
  "overall_sentiment (get_mock_news env symb query max_results)
     = calculate_overall_sentiment (articles (get_mock_news env symb query max_results))"
  by (simp add: get_mock_news_def analyse_articles_def Let_def)


text \<open>
  Claim C8. When no news credential is configured (the key is absent or empty), and
  whenever the live request fails, \<open>get_financial_news\<close> returns the result built from
  the mock table: the entries of the symbol's row, cut to \<open>max_results\<close>, and the
  generic row for a symbol the table does not have. For \<open>AAPL\<close> under the default
  \<open>max_results\<close> of 5 these are exactly its three articles with the overall sentiment
  positive. The overall sentiment is the majority vote over the article sentiments, and a
  tie yields neutral.
\<close>

theorem get_financial_news_mock:
  "(\<not> truthy_str (news_api_key env)
      \<or> (\<exists>e. newsapi env (search_query_of symb query) max_results = Inl e)
     \<longrightarrow> get_financial_news env symb query max_results
           = Inr (get_mock_news env symb query max_results))
   \<and> (upper symb = ''AAPL'' \<longrightarrow>
        map (\<lambda>a. (title a, source a, sentiment a)) (articles (get_mock_news env symb query 5))
          = [(''Apple announces record iPhone sales'', ''Bloomberg'', Some ''positive''),
             (''New Apple AI features impress analysts'', ''CNBC'', Some ''positive''),
             (''Apple faces regulatory challenges in EU'', ''Reuters'', Some ''negative'')]
        \<and> overall_sentiment (get_mock_news env symb query 5) = ''positive'')
   \<and> (\<forall>items. mock_news (upper symb) = Some items \<longrightarrow>
        map (\<lambda>a. (title a, source a, sentiment a))
            (articles (get_mock_news env symb query max_results))
          = map (\<lambda>(t, s, v). (t, s, Some v)) (py_slice_to items max_results))
   \<and> (mock_news (upper symb) = None \<longrightarrow>
        map (\<lambda>a. (title a, source a, sentiment a))
            (articles (get_mock_news env symb query max_results))
          = map (\<lambda>(t, s, v). (t, s, Some v)) (py_slice_to generic_news max_results))
   \<and> overall_sentiment (get_mock_news env symb query max_results)
        = calculate_overall_sentiment (articles (get_mock_news env symb query max_results))
   \<and> calculate_overall_sentiment arts =
        (if count_list (sentiments_of arts) ''negative'' < count_list (sentiments_of arts) ''positive''
         then ''positive''
         else if count_list (sentiments_of arts) ''positive'' < count_list (sentiments_of arts) ''negative''
         then ''negative'' else ''neutral'')"
proof -
  have fb: "get_financial_news env symb query max_results
              = Inr (get_mock_news env symb query max_results)"
    if "\<not> truthy_str (news_api_key env)
        \<or> (\<exists>e. newsapi env (search_query_of symb query) max_results = Inl e)"
    using that
    by (auto simp add: get_financial_news_def get_real_news_fails split: sum.splits)
  show ?thesis
    apply (intro conjI impI allI)
          apply (erule fb)
         apply (erule mock_aapl_articles)
        apply (erule mock_aapl_sentiment)
       apply (erule mock_known)
      apply (erule mock_generic)
     apply (rule mock_overall)
    apply (rule overall_sentiment_majority)
    done
qed

theorem get_financial_news_mock_witness:
  "get_financial_news env_no_key ''AAPL'' None 5 = Inr (get_mock_news env_no_key ''AAPL'' None 5)
   \<and> get_financial_news env_failing ''AAPL'' None 5 = Inr (get_mock_news env_failing ''AAPL'' None 5)
   \<and> length (articles (get_mock_news env_failing ''AAPL'' None 5)) = 3
   \<and> overall_sentiment (get_mock_news env_failing ''AAPL'' None 5) = ''positive''
   \<and> map title (articles (get_mock_news env_no_key ''MSFT'' None 5))
        = [''Strong quarterly earnings reported'', ''Market shows positive momentum'',
           ''Economic uncertainty affects performance'']
   \<and> calculate_overall_sentiment [art_positive, art_negative] = ''neutral''"
proof -
  have k: "\<not> truthy_str (news_api_key env_no_key)" by (simp add: env_no_key_def)
  have f: "\<exists>e. newsapi env_failing (search_query_of ''AAPL'' None) 5 = Inl e"
    by (simp add: env_failing_def)
  have u: "upper ''AAPL'' = ''AAPL''" by (simp add: upper_def upper_char_def)
  have m: "mock_news (upper ''MSFT'') = None"
    by (simp add: upper_def upper_char_def mock_news_def)
  have t: "sentiments_of [art_positive, art_negative] = [''positive'', ''negative'']"
    by (simp add: sentiments_of_def art_positive_def art_negative_def)
  have 1: "get_financial_news env_no_key ''AAPL'' None 5
             = Inr (get_mock_news env_no_key ''AAPL'' None 5)"
    using get_financial_news_mock [of env_no_key "''AAPL''" None 5 "[]"] k by blast
  have 2: "get_financial_news env_failing ''AAPL'' None 5
             = Inr (get_mock_news env_failing ''AAPL'' None 5)"
    using get_financial_news_mock [of env_failing "''AAPL''" None 5 "[]"] f by blast
  have 3: "map (\<lambda>a. (title a, source a, sentiment a)) (articles (get_mock_news env_failing ''AAPL'' None 5))
          = [(''Apple announces record iPhone sales'', ''Bloomberg'', Some ''positive''),
             (''New Apple AI features impress analysts'', ''CNBC'', Some ''positive''),
             (''Apple faces regulatory challenges in EU'', ''Reuters'', Some ''negative'')]
        \<and> overall_sentiment (get_mock_news env_failing ''AAPL'' None 5) = ''positive''"
    using get_financial_news_mock [of env_failing "''AAPL''" None 5 "[]"] u by blast
  then have "length (map (\<lambda>a. (title a, source a, sentiment a))
                 (articles (get_mock_news env_failing ''AAPL'' None 5))) = 3"
    by simp
  then have 4: "length (articles (get_mock_news env_failing ''AAPL'' None 5)) = 3"
    by simp
  have "map (\<lambda>a. (title a, source a, sentiment a))
            (articles (get_mock_news env_no_key ''MSFT'' None 5))
          = map (\<lambda>(t, s, v). (t, s, Some v)) (py_slice_to generic_news 5)"
    using get_financial_news_mock [of env_no_key "''MSFT''" None 5 "[]"] m by blast
  then have "map fst (map (\<lambda>a. (title a, source a, sentiment a))
            (articles (get_mock_news env_no_key ''MSFT'' None 5)))
          = map fst (map (\<lambda>(t, s, v). (t, s, Some v)) (py_slice_to generic_news 5))"
    by simp
  then have 5: "map title (articles (get_mock_news env_no_key ''MSFT'' None 5))
        = [''Strong quarterly earnings reported'', ''Market shows positive momentum'',
           ''Economic uncertainty affects performance'']"
    by (simp add: comp_def py_slice_to_def generic_news_def)
  have 6: "calculate_overall_sentiment [art_positive, art_negative] = ''neutral''"
    using get_financial_news_mock [of env_no_key "''AAPL''" None 5 "[art_positive, art_negative]"] t
    by simp
  from 1 2 3 4 5 6 show ?thesis by simp
qed

section \<open>Properties of the tool layer\<close>

subsection \<open>Error paths of the tool operations\<close>

lemma price_analysis_of_total: "\<exists>d. price_analysis_of outcome symb period = Inr d"
  by (simp add: price_analysis_of_def split: sum.splits option.splits)

lemma news_sentiment_of_total: "\<exists>d. news_sentiment_of outcome symb = Inr d"
  by (simp add: news_sentiment_of_def split: sum.splits)












lemma get_comprehensive_analysis_insights:
  "\<exists>r. get_comprehensive_analysis fmt fetch now env symb period = Inr r
       \<and> ca_key_insights r
           = generate_combined_insights fmt (ca_price_analysis r) (ca_sentiment_analysis r)"
proof -
  have "\<exists>pd. get_price_analysis_impl fetch now symb period = Inr pd"
    by (simp add: get_price_analysis_impl_def price_analysis_of_total)
  then obtain pd where pd: "get_price_analysis_impl fetch now symb period = Inr pd" ..
  have "\<exists>nd. get_news_sentiment_impl env symb 5 = Inr nd"
    by (simp add: get_news_sentiment_impl_def news_sentiment_of_total)
  then obtain nd where nd: "get_news_sentiment_impl env symb 5 = Inr nd" ..
  from pd nd show ?thesis by (simp add: get_comprehensive_analysis_def)
qed




subsection \<open>Combined insights\<close>

lemma price_stage_len: "length (fst (price_stage fmt pd)) \<le> 2"
  by (simp add: price_stage_def Let_def split: sum.splits bool.splits)

lemma sentiment_phrase_len: "length (sentiment_phrase nd) \<le> 1"
  by (simp add: sentiment_phrase_def Let_def)

lemma fear_greed_stage_len: "length (fst (fear_greed_stage nd)) \<le> 1"
  by (simp add: fear_greed_stage_def Let_def split: sum.splits bool.splits)

lemma headlines_stage_len: "length (fst (headlines_stage nd)) \<le> 1"
  by (simp add: headlines_stage_def Let_def split: sum.splits)

lemma generate_combined_insights_bounds:
  "1 \<le> length (generate_combined_insights fmt pd nd)
   \<and> length (generate_combined_insights fmt pd nd) \<le> 5"
  by (cases "collect_insights fmt pd nd") (simp_all add: generate_combined_insights_def Let_def)

lemma price_stage_typed:
  "dict_get pd ''current_price'' (PNum 0) = PNum cp \<Longrightarrow>
   price_stage fmt pd =
     ((if 0 < cp \<and> dict_get pd ''trend_direction'' (PStr ''unknown'') = PStr ''bullish''
       then [''Strong upward momentum with ''
               @ fmt (dict_get pd ''price_change_percentage'' (PNum 0))
               @ ''% gain over the period'']
       else if 0 < cp \<and> dict_get pd ''trend_direction'' (PStr ''unknown'') = PStr ''bearish''
       then [''Facing downward pressure with ''
               @ fmt (dict_get pd ''price_change_percentage'' (PNum 0)) @ ''% decline'']
       else [])
      @ (if 0 < cp \<and> pd ''volume_trend'' = Some (PStr ''increasing'')
         then [''Increasing trading volume supports the price trend'']
         else []),
      False)"
  by (simp add: price_stage_def Let_def)

lemma fear_greed_stage_typed:
  "dict_get nd ''fear_greed_index'' (PNum 50) = PNum fg \<Longrightarrow>
   fear_greed_stage nd =
     (if 70 < fg then [''High greed index suggests optimistic market sentiment'']
      else if fg < 30 then [''Low fear index may indicate potential buying opportunity'']
      else [], False)"
  by (simp add: fear_greed_stage_def Let_def)

lemma headlines_stage_typed:
  "dict_get nd ''top_headlines'' (PStrs []) = PStrs hs \<Longrightarrow>
   headlines_stage nd =
     (if hs \<noteq> [] then [''Recent news includes '' @ show_nat (length hs) @ '' key developments'']
      else [], False)"
  by (simp add: headlines_stage_def Let_def)

lemma collect_typed:
  assumes "price_stage fmt pd = (p, False)" "fear_greed_stage nd = (g, False)"
    "headlines_stage nd = (h, False)"
  shows "collect_insights fmt pd nd = p @ sentiment_phrase nd @ g @ h"
  using assms by (simp add: collect_insights_def)

lemma collect_short:
  assumes "price_stage fmt pd = (p, False)" "fear_greed_stage nd = (g, False)"
    "headlines_stage nd = (h, False)"
  shows "length (collect_insights fmt pd nd) \<le> 5"
proof -
  have "length p \<le> 2" using price_stage_len [of fmt pd] assms(1) by simp
  moreover have "length g \<le> 1" using fear_greed_stage_len [of nd] assms(2) by simp
  moreover have "length h \<le> 1" using headlines_stage_len [of nd] assms(3) by simp
  moreover note sentiment_phrase_len [of nd]
  ultimately show ?thesis by (simp add: collect_typed [OF assms])
qed

text \<open>
  Claim C4, as amended. For every pair of price and news mappings the \<open>key_insights\<close>
  list has between 1 and 5 entries. Where \<open>current_price\<close>, \<open>fear_greed_index\<close> and
  \<open>top_headlines\<close> have their declared types, the list is assembled in a fixed order: a
  trend phrase when \<open>current_price\<close> is positive and the trend is bullish or bearish, a
  volume phrase when \<open>current_price\<close> is positive and the volume trend is increasing, a
  sentiment phrase when the overall sentiment is positive or negative, a fear and greed
  phrase when the index is above 70 or below 30, a headline-count phrase when any headline
  exists; at most five phrases arise, so nothing is cut or reordered, and the generic line
  replaces an empty list. \<open>get_comprehensive_analysis\<close> always returns, with the
  insights generated from the two mappings it reports.
\<close>

theorem generate_combined_insights_rules:
  "1 \<le> length (generate_combined_insights fmt pd nd)
   \<and> length (generate_combined_insights fmt pd nd) \<le> 5
   \<and> (dict_get pd ''current_price'' (PNum 0) = PNum cp
      \<and> dict_get nd ''fear_greed_index'' (PNum 50) = PNum fg
      \<and> dict_get nd ''top_headlines'' (PStrs []) = PStrs hs
      \<longrightarrow> generate_combined_insights fmt pd nd =
           (let insights =
              (if 0 < cp \<and> dict_get pd ''trend_direction'' (PStr ''unknown'') = PStr ''bullish''
               then [''Strong upward momentum with ''
                       @ fmt (dict_get pd ''price_change_percentage'' (PNum 0))
                       @ ''% gain over the period'']
               else if 0 < cp \<and> dict_get pd ''trend_direction'' (PStr ''unknown'') = PStr ''bearish''
               then [''Facing downward pressure with ''
                       @ fmt (dict_get pd ''price_change_percentage'' (PNum 0)) @ ''% decline'']
               else [])
              @ (if 0 < cp \<and> pd ''volume_trend'' = Some (PStr ''increasing'')
                 then [''Increasing trading volume supports the price trend'']
                 else [])
              @ (if dict_get nd ''overall_sentiment'' (PStr ''neutral'') = PStr ''positive''
                 then [''Positive market sentiment aligns with recent news flow'']
                 else if dict_get nd ''overall_sentiment'' (PStr ''neutral'') = PStr ''negative''
                 then [''Market sentiment shows concerns that may impact performance'']
                 else [])
              @ (if 70 < fg then [''High greed index suggests optimistic market sentiment'']
                 else if fg < 30
                 then [''Low fear index may indicate potential buying opportunity'']
                 else [])
              @ (if hs \<noteq> []
                 then [''Recent news includes '' @ show_nat (length hs) @ '' key developments'']
                 else [])
            in if insights = [] then [''Analysis completed with available market data'']
               else insights))
   \<and> (\<exists>r. get_comprehensive_analysis fmt fetch now env symb period = Inr r
          \<and> ca_key_insights r
              = generate_combined_insights fmt (ca_price_analysis r) (ca_sentiment_analysis r))"
proof -
  have typed: "generate_combined_insights fmt pd nd =
           (let insights = fst (price_stage fmt pd) @ sentiment_phrase nd
                             @ fst (fear_greed_stage nd) @ fst (headlines_stage nd)
            in if insights = [] then [''Analysis completed with available market data'']
               else insights)"
    if a: "dict_get pd ''current_price'' (PNum 0) = PNum cp"
      and b: "dict_get nd ''fear_greed_index'' (PNum 50) = PNum fg"
      and c: "dict_get nd ''top_headlines'' (PStrs []) = PStrs hs"
  proof -
    obtain p g h where p: "price_stage fmt pd = (p, False)"
      and g: "fear_greed_stage nd = (g, False)" and h: "headlines_stage nd = (h, False)"
      using price_stage_typed [OF a] fear_greed_stage_typed [OF b] headlines_stage_typed [OF c]
      by blast
    from collect_short [OF p g h] collect_typed [OF p g h] p g h
    show ?thesis by (simp add: generate_combined_insights_def Let_def)
  qed
  show ?thesis
    apply (intro conjI impI)
       apply (rule generate_combined_insights_bounds [THEN conjunct1])
      apply (rule generate_combined_insights_bounds [THEN conjunct2])
     apply (elim conjE)
     apply (simp only: typed price_stage_typed fear_greed_stage_typed headlines_stage_typed
              sentiment_phrase_def fst_conv Let_def append_assoc)
    apply (rule get_comprehensive_analysis_insights)
    done
qed

theorem generate_combined_insights_rules_witness:
  "generate_combined_insights fmt_example bullish_price_data greedy_news_data
     = [''Strong upward momentum with 5.00% gain over the period'',
        ''Increasing trading volume supports the price trend'',
        ''Positive market sentiment aligns with recent news flow'',
        ''High greed index suggests optimistic market sentiment'',
        ''Recent news includes 3 key developments'']"
proof -
  have a: "dict_get bullish_price_data ''current_price'' (PNum 0) = PNum 195"
    by (simp add: dict_get_def bullish_price_data_def)
  have b: "dict_get greedy_news_data ''fear_greed_index'' (PNum 50) = PNum 76"
    by (simp add: dict_get_def greedy_news_data_def)
  have c: "dict_get greedy_news_data ''top_headlines'' (PStrs []) = PStrs [''a'', ''b'', ''c'']"
    by (simp add: dict_get_def greedy_news_data_def)
  have f: "fmt_2f 5 = ''5.00''" by code_simp
  have n: "show_nat (Suc (Suc (Suc 0))) = ''3''" by code_simp
  from generate_combined_insights_rules
         [of fmt_example bullish_price_data greedy_news_data 195 76 "[''a'', ''b'', ''c'']"] a b c
  show ?thesis
    by (simp add: dict_get_def bullish_price_data_def greedy_news_data_def Let_def f n)
qed

text \<open>
  The claim as stated omits the gate on the price: with a last close below zero, a bearish
  trend and an increasing volume no trend phrase and no volume phrase is produced.
\<close>

theorem generate_combined_insights_gate_counterexample:
  "negative_price_data ''trend_direction'' = Some (PStr ''bearish'')
   \<and> negative_price_data ''volume_trend'' = Some (PStr ''increasing'')
   \<and> generate_combined_insights fmt_example negative_price_data Map.empty
       = [''Analysis completed with available market data'']"
  by (simp add: generate_combined_insights_def collect_insights_def price_stage_def
        sentiment_phrase_def fear_greed_stage_def headlines_stage_def dict_get_def
        negative_price_data_def Let_def)

section \<open>Properties of the conversation store\<close>

lemma add_message_existing:
  "st cid = Some c \<Longrightarrow>
   add_message st cid r x t1 t2
     = Inr (st(cid \<mapsto> c\<lparr> messages := messages c @ [\<lparr> role = r, content = x, turn_timestamp = t1 \<rparr>],
                          updated_at := t2 \<rparr>))"
  by (simp add: add_message_def get_conversation_def)

lemma add_message_missing:
  "st cid = None \<Longrightarrow> \<exists>e. add_message st cid r x t1 t2 = Inl e"
  by (simp add: add_message_def get_conversation_def)

lemma apply_store_op_messages:
  assumes "st cid = Some c" and "\<not> creates cid op"
  shows "\<exists>c'. apply_store_op st op cid = Some c'
           \<and> messages c' = messages c @ turns_for cid [op]
           \<and> (\<forall>r x t1 t2. op = Add cid r x t1 t2 \<longrightarrow> updated_at c' = t2)"
proof (cases op)
  case (Create new_id now uid)
  with assms show ?thesis by (simp add: create_conversation_def)
next
  case (Get x)
  with assms show ?thesis by simp
next
  case (GetMessages x)
  with assms show ?thesis by simp
next
  case (Add cid' r x t1 t2)
  show ?thesis
  proof (cases "cid' = cid")
    case True
    with Add assms show ?thesis by (simp add: add_message_existing)
  next
    case False
    with Add assms show ?thesis
      by (cases "st cid'") (auto simp add: add_message_def get_conversation_def)
  qed
qed

lemma turns_for_append: "turns_for cid (xs @ ys) = turns_for cid xs @ turns_for cid ys"
  by (induction cid xs rule: turns_for.induct) simp_all

lemma run_store_ops_messages:
  assumes "st cid = Some c" and "\<forall>op \<in> set ops. \<not> creates cid op"
  shows "\<exists>c'. run_store_ops st ops cid = Some c' \<and> messages c' = messages c @ turns_for cid ops"
  using assms
proof (induction ops arbitrary: st c)
  case Nil
  then show ?case by (simp add: run_store_ops_def)
next
  case (Cons op ops)
  from Cons.prems have nc: "\<not> creates cid op" by simp
  from apply_store_op_messages [where st = st and cid = cid and c = c and op = op, OF Cons.prems(1) nc]
  obtain c1 where c1: "apply_store_op st op cid = Some c1"
    and m1: "messages c1 = messages c @ turns_for cid [op]" by blast
  from Cons.prems have rest: "\<forall>op \<in> set ops. \<not> creates cid op" by simp
  from Cons.IH [where st = "apply_store_op st op" and c = c1, OF c1 rest]
  obtain c' where c': "run_store_ops (apply_store_op st op) ops cid = Some c'"
    and m': "messages c' = messages c1 @ turns_for cid ops" by blast
  have "turns_for cid (op # ops) = turns_for cid [op] @ turns_for cid ops"
    using turns_for_append [of cid "[op]" ops] by simp
  with c' m' m1 show ?case by (simp add: run_store_ops_def)
qed


lemma length_turns_for: "length (turns_for cid ops) = length (filter (is_add_to cid) ops)"
  by (induction cid ops rule: turns_for.induct) simp_all

text \<open>
  Claim C9. The conversation store is append-only. For an existing conversation, after
  any run of store operations that does not create a conversation under the same
  identifier again (identifiers are fresh), \<open>get_conversation_messages\<close> returns the
  turns it held before followed by the turns of the \<open>add_message\<close> calls for it, in
  call order and unchanged: \<open>N\<close> calls add exactly \<open>N\<close> turns, and a conversation
  that started empty holds exactly \<open>N\<close>. Each append sets \<open>updated_at\<close> to the clock
  reading of that call.
\<close>

theorem conversation_store_append_only:
  assumes ex: "st cid = Some c" and fresh: "\<forall>op \<in> set ops. \<not> creates cid op"
  shows "get_conversation_messages (run_store_ops st ops) cid
           = Inr (messages c @ turns_for cid ops)
     \<and> length (messages c @ turns_for cid ops)
           = length (messages c) + length (filter (is_add_to cid) ops)
     \<and> add_message st cid r x t1 t2
           = Inr (st(cid \<mapsto> c\<lparr> messages := messages c
                                      @ [\<lparr> role = r, content = x, turn_timestamp = t1 \<rparr>],
                                    updated_at := t2 \<rparr>))"
proof -
  from run_store_ops_messages [where st = st and cid = cid and c = c and ops = ops, OF ex fresh]
  obtain c' where "run_store_ops st ops cid = Some c'"
    and "messages c' = messages c @ turns_for cid ops" by blast
  then have a: "get_conversation_messages (run_store_ops st ops) cid
           = Inr (messages c @ turns_for cid ops)"
    by (simp add: get_conversation_messages_def get_conversation_def)
  have b: "length (messages c @ turns_for cid ops)
           = length (messages c) + length (filter (is_add_to cid) ops)"
    by (simp add: length_turns_for)
  note d = add_message_existing [where st = st and cid = cid and c = c, OF ex]
  from a b d show ?thesis by simp
qed

theorem conversation_store_append_only_witness:
  "get_conversation_messages (run_store_ops store_c1 ops_c1) ''c1''
     = Inr [\<lparr> role = ''user'', content = ''price of AAPL?'', turn_timestamp = 11 \<rparr>,
            \<lparr> role = ''assistant'', content = ''AAPL trades at 195'', turn_timestamp = 18 \<rparr>]"
proof -
  have ex: "store_c1 ''c1''
      = Some \<lparr> conversation_id = ''c1'', user_id = ''anonymous'', messages = [],
                 created_at = 10, updated_at = 10 \<rparr>"
    by (simp add: store_c1_def create_conversation_def)
  have fresh: "\<forall>op \<in> set ops_c1. \<not> creates ''c1'' op"
    by (simp add: ops_c1_def)
  from conversation_store_append_only
         [where st = store_c1 and cid = "''c1''" and ops = ops_c1, OF ex fresh]
  show ?thesis by (simp add: ops_c1_def)
qed

section \<open>Properties of the orchestration service\<close>

subsection \<open>The enriched prompt\<close>










subsection \<open>Processing a message\<close>

lemma get_messages_existing:
  "st cid = Some c \<Longrightarrow> get_conversation_messages st cid = Inr (messages c)"
  by (simp add: get_conversation_messages_def get_conversation_def)

lemma get_messages_missing:
  "st cid = None \<Longrightarrow> \<exists>e. get_conversation_messages st cid = Inl e"
  by (simp add: get_conversation_messages_def get_conversation_def)

lemma two_appends:
  assumes "st cid = Some c"
  shows "add_message st cid r1 x1 t1 u1
           = Inr (st(cid \<mapsto> c\<lparr> messages := messages c @ [\<lparr> role = r1, content = x1, turn_timestamp = t1 \<rparr>],
                                  updated_at := u1 \<rparr>))
     \<and> add_message (st(cid \<mapsto> c\<lparr> messages := messages c @ [\<lparr> role = r1, content = x1, turn_timestamp = t1 \<rparr>],
                                  updated_at := u1 \<rparr>)) cid r2 x2 t2 u2
           = Inr (st(cid \<mapsto> c\<lparr> messages := messages c
                                     @ [\<lparr> role = r1, content = x1, turn_timestamp = t1 \<rparr>,
                                        \<lparr> role = r2, content = x2, turn_timestamp = t2 \<rparr>],
                                  updated_at := u2 \<rparr>))"
  using assms by (simp add: add_message_def get_conversation_def)

lemma process_message_body_cases:
  "(\<exists>e. process_message_body env st1 cid message agent_type ctx = (Inl e, st1))
   \<or> (\<exists>c resp. st1 cid = Some c
        \<and> process_message_body env st1 cid message agent_type ctx
            = (Inr resp,
               st1(cid \<mapsto> c\<lparr> messages := messages c
                     @ [\<lparr> role = ''user'', content = message, turn_timestamp = t_user_turn env \<rparr>,
                        \<lparr> role = ''assistant'', content = response resp,
                          turn_timestamp = t_asst_turn env \<rparr>],
                   updated_at := t_asst_upd env \<rparr>))
        \<and> resp_conversation_id resp = cid)"
proof (cases "get_agent env agent_type")
  case (Inl e)
  then show ?thesis by (simp add: process_message_body_def)
next
  case ag: (Inr ag)
  show ?thesis
  proof (cases "st1 cid")
    case None
    then obtain e where "get_conversation_messages st1 cid = Inl e"
      using get_messages_missing by blast
    with ag show ?thesis by (simp add: process_message_body_def)
  next
    case (Some c)
    note hist = get_messages_existing [where st = st1 and cid = cid, OF Some]
    show ?thesis
    proof (cases "run_agent_with_tools ag
               (enhance_message_with_context (fmt_value env) (repr_context env)
                  message (messages c) ctx cid)")
      case (Inl e)
      with ag hist show ?thesis by (simp add: process_message_body_def)
    next
      case (Inr result)
      from two_appends
             [where st = st1 and cid = cid and ?r1.0 = "''user''" and ?x1.0 = message
                and ?t1.0 = "t_user_turn env" and ?u1.0 = "t_user_upd env"
                and ?r2.0 = "''assistant''" and ?x2.0 = "extract_response_text result"
                and ?t2.0 = "t_asst_turn env" and ?u2.0 = "t_asst_upd env", OF Some]
        ag hist Inr Some
      show ?thesis by (simp add: process_message_body_def Let_def)
    qed
  qed
qed

text \<open>
  Claim C5. For every request, with the conversation resolved (taken as given, or created),
  \<open>process_message\<close> ends in one of two ways. Either the body of the \<open>try\<close> block
  raised some exception: then the caller receives the single agent error
  \<open>Message processing failed:\<close> followed by that exception's message, no response
  envelope, and the store holds neither of the two turns. Or the caller receives the
  response envelope and the conversation holds its earlier turns followed by the user turn
  and the assistant turn, both. No run ends with only the user turn appended: once the
  first append has succeeded the second cannot fail.
\<close>

theorem process_message_atomic:
  assumes res: "resolve_conversation env st conv_id = (cid, st1)"
  shows "(\<exists>e. process_message_body env st1 cid message agent_type
                (case ctx of Some c \<Rightarrow> c | None \<Rightarrow> []) = (Inl e, st1)
            \<and> process_message env st message agent_type conv_id ctx
                = (Inl (mk_AgentException (''Message processing failed: '' @ str_exn e)), st1))
     \<or> (\<exists>c resp. st1 cid = Some c
          \<and> process_message env st message agent_type conv_id ctx
              = (Inr resp,
                 st1(cid \<mapsto> c\<lparr> messages := messages c
                       @ [\<lparr> role = ''user'', content = message, turn_timestamp = t_user_turn env \<rparr>,
                          \<lparr> role = ''assistant'', content = response resp,
                            turn_timestamp = t_asst_turn env \<rparr>],
                     updated_at := t_asst_upd env \<rparr>))
          \<and> resp_conversation_id resp = cid)"
  using process_message_body_cases
          [of env st1 cid message agent_type "case ctx of Some c \<Rightarrow> c | None \<Rightarrow> []"] res
  by (auto simp add: process_message_def)


theorem process_message_atomic_witness:
  "process_message env_ok Map.empty ''price of AAPL?'' FINANCIAL_MANAGER None None
     = (Inr \<lparr> response = ''AAPL trades at 195'', resp_conversation_id = ''c1'',
               resp_agent_type = FINANCIAL_MANAGER, resp_timestamp = 15,
               meta_processing_time = None, meta_tool_used = False \<rparr>,
        [''c1'' \<mapsto> \<lparr> conversation_id = ''c1'', user_id = ''anonymous'',
             messages = [\<lparr> role = ''user'', content = ''price of AAPL?'', turn_timestamp = 11 \<rparr>,
                         \<lparr> role = ''assistant'', content = ''AAPL trades at 195'',
                           turn_timestamp = 13 \<rparr>],
             created_at = 10, updated_at = 14 \<rparr>])
   \<and> process_message env_down Map.empty ''price of AAPL?'' FINANCIAL_MANAGER None None
     = (Inl (AgentException ''Agent error: Message processing failed: model request timed out''),
        [''c1'' \<mapsto> \<lparr> conversation_id = ''c1'', user_id = ''anonymous'', messages = [],
             created_at = 10, updated_at = 10 \<rparr>])"
proof -
  let ?c = "\<lparr> conversation_id = ''c1'', user_id = ''anonymous'', messages = [],
             created_at = 10, updated_at = 10 \<rparr>"
  have r1: "resolve_conversation env_ok Map.empty None = (''c1'', [''c1'' \<mapsto> ?c])"
    by (simp add: resolve_conversation_def create_conversation_def env_ok_def)
  have r2: "resolve_conversation env_down Map.empty None = (''c1'', [''c1'' \<mapsto> ?c])"
    by (simp add: resolve_conversation_def create_conversation_def env_down_def)
  have b1: "process_message_body env_ok [''c1'' \<mapsto> ?c] ''c1'' ''price of AAPL?''
                   FINANCIAL_MANAGER []
     = (Inr \<lparr> response = ''AAPL trades at 195'', resp_conversation_id = ''c1'',
               resp_agent_type = FINANCIAL_MANAGER, resp_timestamp = 15,
               meta_processing_time = None, meta_tool_used = False \<rparr>,
        [''c1'' \<mapsto> \<lparr> conversation_id = ''c1'', user_id = ''anonymous'',
             messages = [\<lparr> role = ''user'', content = ''price of AAPL?'', turn_timestamp = 11 \<rparr>,
                         \<lparr> role = ''assistant'', content = ''AAPL trades at 195'',
                           turn_timestamp = 13 \<rparr>],
             created_at = 10, updated_at = 14 \<rparr>])"
    by (simp add: process_message_body_def get_agent_def get_conversation_messages_def
          get_conversation_def run_agent_with_tools_def agent_ok_def env_ok_def answer_def
          extract_response_text_def check_if_tools_used_def add_message_def Let_def)
  have b2: "process_message_body env_down [''c1'' \<mapsto> ?c] ''c1'' ''price of AAPL?''
                   FINANCIAL_MANAGER []
              = (Inl (UpstreamError ''model request timed out''), [''c1'' \<mapsto> ?c])"
    by (simp add: process_message_body_def get_agent_def get_conversation_messages_def
          get_conversation_def run_agent_with_tools_def agent_down_def env_down_def)
  have 1: "process_message env_ok Map.empty ''price of AAPL?'' FINANCIAL_MANAGER None None
     = (Inr \<lparr> response = ''AAPL trades at 195'', resp_conversation_id = ''c1'',
               resp_agent_type = FINANCIAL_MANAGER, resp_timestamp = 15,
               meta_processing_time = None, meta_tool_used = False \<rparr>,
        [''c1'' \<mapsto> \<lparr> conversation_id = ''c1'', user_id = ''anonymous'',
             messages = [\<lparr> role = ''user'', content = ''price of AAPL?'', turn_timestamp = 11 \<rparr>,
                         \<lparr> role = ''assistant'', content = ''AAPL trades at 195'',
                           turn_timestamp = 13 \<rparr>],
             created_at = 10, updated_at = 14 \<rparr>])"
    using process_message_atomic [OF r1, of "''price of AAPL?''" FINANCIAL_MANAGER None]
    by (simp add: process_message_def r1 b1)
  have 2: "process_message env_down Map.empty ''price of AAPL?'' FINANCIAL_MANAGER None None
     = (Inl (AgentException ''Agent error: Message processing failed: model request timed out''),
        [''c1'' \<mapsto> ?c])"
    using process_message_atomic [OF r2, of "''price of AAPL?''" FINANCIAL_MANAGER None]
    by (simp add: process_message_def r2 b2 mk_AgentException_def)
  from 1 2 show ?thesis by simp
qed


end
